theory Spec2Isabelle
  imports Main "HOL-Library.Word" "HOL-Library.Multiset"
begin

section \<open>Strings of the host language\<close>

text \<open>
  A JavaScript string is a sequence of UTF-16 code units. String literals of the source
  are written with \<open>lit\<close>, which maps an ASCII literal to its code units.
\<close>

type_synonym jsstring = "16 word list"

definition lit :: "string \<Rightarrow> jsstring" where
  "lit s = map (\<lambda>c. of_char c) s"

text \<open>
  \<open>String.prototype.trim\<close> removes the code units that are WhiteSpace or
  LineTerminator of ECMAScript from both ends: TAB, LF, VT, FF, CR, SPACE, NBSP,
  U+1680, U+2000 to U+200A, U+2028, U+2029, U+202F, U+205F, U+3000 and U+FEFF.
\<close>

definition isWhiteSpace :: "16 word \<Rightarrow> bool" where
  "isWhiteSpace c \<longleftrightarrow>
     c = 0x09 \<or> c = 0x0A \<or> c = 0x0B \<or> c = 0x0C \<or> c = 0x0D \<or> c = 0x20 \<or> c = 0xA0 \<or>
     c = 0x1680 \<or> (0x2000 \<le> c \<and> c \<le> 0x200A) \<or> c = 0x2028 \<or> c = 0x2029 \<or>
     c = 0x202F \<or> c = 0x205F \<or> c = 0x3000 \<or> c = 0xFEFF"

definition trim :: "jsstring \<Rightarrow> jsstring" where
  "trim s = rev (dropWhile isWhiteSpace (rev (dropWhile isWhiteSpace s)))"

section \<open>Data model\<close>

datatype role = User | Assistant

record message =
  role :: role
  content :: jsstring

text \<open>The authenticated user of \<open>useAuth\<close>; \<open>None\<close> when nobody is logged in.\<close>

record auth_user =
  uid :: jsstring

text \<open>Rows of the three persisted tables. \<open>m_created_at\<close> is assigned by the database.\<close>

record session_row =
  s_id :: jsstring
  s_agent_id :: jsstring
  s_user_id :: jsstring
  s_title :: jsstring
  s_created_at :: jsstring
  s_updated_at :: jsstring

record message_row =
  m_session_id :: jsstring
  m_role :: role
  m_content :: jsstring
  m_created_at :: nat

record agent_row =
  a_id :: jsstring
  a_name :: jsstring
  a_description :: "jsstring option"

record backend =
  chat_sessions :: "session_row list"
  chat_messages :: "message_row list"
  agents :: "agent_row list"

section \<open>Observable events\<close>

datatype setter =
    AppendMessage message
  | ReplaceMessages "message list"
  | SetIsLoading bool
  | SetSessionId "jsstring option"

datatype request =
    InsertSession session_row
  | InsertMessage jsstring message
  | SelectSession jsstring
  | SelectMessages jsstring
  | SelectAgent jsstring
  | InvokeGemini "message list" "agent_row option"

datatype event =
    Set setter
  | Net request
  | Toast jsstring jsstring
  | ConsoleError jsstring
  | ConsoleLog jsstring

fun is_net :: "event \<Rightarrow> bool" where
  "is_net (Net _) = True"
| "is_net _ = False"

fun is_toast :: "event \<Rightarrow> bool" where
  "is_toast (Toast _ _) = True"
| "is_toast _ = False"

fun is_console_error :: "event \<Rightarrow> bool" where
  "is_console_error (ConsoleError _) = True"
| "is_console_error _ = False"

fun appends_assistant :: "event \<Rightarrow> bool" where
  "appends_assistant (Set (AppendMessage m)) = (role m = Assistant)"
| "appends_assistant _ = False"

section \<open>The controller's world\<close>

text \<open>
  The three \<open>useState\<close> cells of the hook, the persisted tables behind the database
  service, and the trace of everything the hook did, oldest event first.
\<close>

record world =
  messages :: "message list"
  isLoading :: bool
  sessionId :: "jsstring option"
  db :: backend
  trace :: "event list"

definition emit :: "event \<Rightarrow> world \<Rightarrow> world" where
  "emit e w = w\<lparr>trace := trace w @ [e]\<rparr>"

definition appendMessage :: "message \<Rightarrow> world \<Rightarrow> world" where
  "appendMessage m w = emit (Set (AppendMessage m)) (w\<lparr>messages := messages w @ [m]\<rparr>)"

definition setMessages :: "message list \<Rightarrow> world \<Rightarrow> world" where
  "setMessages ms w = emit (Set (ReplaceMessages ms)) (w\<lparr>messages := ms\<rparr>)"

definition setIsLoading :: "bool \<Rightarrow> world \<Rightarrow> world" where
  "setIsLoading b w = emit (Set (SetIsLoading b)) (w\<lparr>isLoading := b\<rparr>)"

definition setSessionId :: "jsstring option \<Rightarrow> world \<Rightarrow> world" where
  "setSessionId s w = emit (Set (SetSessionId s)) (w\<lparr>sessionId := s\<rparr>)"

definition toast :: "jsstring \<Rightarrow> jsstring \<Rightarrow> world \<Rightarrow> world" where
  "toast title description w = emit (Toast title description) w"

definition new_events :: "world \<Rightarrow> world \<Rightarrow> event list" where
  "new_events w w' = drop (length (trace w)) (trace w')"

section \<open>The environment of one call\<close>

text \<open>
  Every call to the database service or to the generation function either succeeds,
  resolves to a result whose \<open>error\<close> field is set, or rejects (throws). The message
  of the error travels with the outcome.
\<close>

datatype outcome = Succeeds | ReturnsError jsstring | Throws jsstring

text \<open>
  The \<open>data\<close> field of the generation function's response: null, or an object whose
  \<open>generatedText\<close> may be missing. The function is opaque; \<open>generate\<close> below is its
  answer to a request, which carries the messages and the agent configuration (the API
  key of the request is a constant of the build).
\<close>

datatype gen_data = NoData | Reply "jsstring option"

record send_env =
  uuid :: jsstring
  created_iso :: jsstring
  updated_iso :: jsstring
  create_outcome :: outcome
  save_user_outcome :: outcome
  save_user_ts :: nat
  agent_outcome :: outcome
  invoke_outcome :: outcome
  generate :: "message list \<Rightarrow> agent_row option \<Rightarrow> gen_data"
  save_assistant_outcome :: outcome
  save_assistant_ts :: nat

text \<open>
  \<open>coerce_msg\<close> is the message of the error that \<open>.single()\<close> reports when the
  query does not select exactly one row.
\<close>

record load_env =
  session_outcome :: outcome
  messages_outcome :: outcome
  coerce_msg :: jsstring

section \<open>The hook: useChatWithGemini\<close>

text \<open>
  \<open>saveMessage\<close> (lines 18 to 28). The result of the insert is discarded, so an error
  reported in the result is not seen; a rejected call is caught and logged.
\<close>

definition saveMessage :: "outcome \<Rightarrow> nat \<Rightarrow> message \<Rightarrow> jsstring \<Rightarrow> world \<Rightarrow> world" where
  "saveMessage oc ts m chatSessionId w =
     (let w1 = emit (Net (InsertMessage chatSessionId m)) w in
      case oc of
        Succeeds \<Rightarrow>
          w1\<lparr>db := (db w1)\<lparr>chat_messages := chat_messages (db w1) @
             [\<lparr>m_session_id = chatSessionId, m_role = role m, m_content = content m,
               m_created_at = ts\<rparr>]\<rparr>\<rparr>
      | ReturnsError e \<Rightarrow> w1
      | Throws e \<Rightarrow> emit (ConsoleError (lit ''Error saving message:'')) w1)"

text \<open>\<open>createChatSession\<close> (lines 30 to 70), called with the default title.\<close>

definition createChatSession ::
  "send_env \<Rightarrow> auth_user option \<Rightarrow> jsstring \<Rightarrow> world \<Rightarrow> jsstring option \<times> world" where
  "createChatSession env user agentId w =
     (case user of
        None \<Rightarrow>
          (None, toast (lit ''Authentication required'')
                   (lit ''You must be logged in to create a chat session'') w)
      | Some u \<Rightarrow>
          (let row = \<lparr>s_id = uuid env, s_agent_id = agentId, s_user_id = uid u,
                      s_title = lit ''New Chat'', s_created_at = created_iso env,
                      s_updated_at = updated_iso env\<rparr>;
               w1 = emit (Net (InsertSession row)) w
           in case create_outcome env of
                Succeeds \<Rightarrow>
                  (Some (s_id row),
                   w1\<lparr>db := (db w1)\<lparr>chat_sessions := chat_sessions (db w1) @ [row]\<rparr>\<rparr>)
              | ReturnsError e \<Rightarrow>
                  (None, toast (lit ''Error creating chat session'') e
                           (emit (ConsoleError (lit ''Error creating chat session:'')) w1))
              | Throws e \<Rightarrow>
                  (None, toast (lit ''Error creating chat session'') e w1)))"

text \<open>
  The query of \<open>getAgentConfig\<close> (lines 141 to 145) on the table of agents: the
  selected row, or \<open>None\<close> when the call fails or \<open>.single()\<close> does not find
  exactly one row.
\<close>

definition select_agent :: "outcome \<Rightarrow> jsstring \<Rightarrow> agent_row list \<Rightarrow> agent_row option" where
  "select_agent oc agentId tbl =
     (case oc of
        Succeeds \<Rightarrow>
          (case filter (\<lambda>a. a_id a = agentId) tbl of
             [a] \<Rightarrow> Some a
           | _ \<Rightarrow> None)
      | ReturnsError e \<Rightarrow> None
      | Throws e \<Rightarrow> None)"

text \<open>\<open>getAgentConfig\<close> (lines 139 to 153): every failure is logged and becomes null.\<close>

definition getAgentConfig :: "outcome \<Rightarrow> jsstring \<Rightarrow> world \<Rightarrow> agent_row option \<times> world" where
  "getAgentConfig oc agentId w =
     (let w1 = emit (Net (SelectAgent agentId)) w in
      case select_agent oc agentId (agents (db w1)) of
        Some data \<Rightarrow> (Some data, w1)
      | None \<Rightarrow> (None, emit (ConsoleError (lit ''Error fetching agent config:'')) w1))"

text \<open>
  The \<open>try\<close> block of \<open>sendMessage\<close> from the point where the session id is known
  (lines 179 to 211). \<open>Inl\<close> carries the message of the error that was thrown.
  \<open>closure_messages\<close> is the message list the callback captured when it was created.
\<close>

definition sendMessage_session ::
  "send_env \<Rightarrow> jsstring \<Rightarrow> message \<Rightarrow> message list \<Rightarrow> jsstring \<Rightarrow> world
     \<Rightarrow> (jsstring + unit) \<times> world" where
  "sendMessage_session env agentId userMessage closure_messages currentSessionId w =
     (let w1 = saveMessage (save_user_outcome env) (save_user_ts env) userMessage
                 currentSessionId w;
          (agentConfig, w2) = getAgentConfig (agent_outcome env) agentId w1;
          allMessages = closure_messages @ [userMessage];
          w3 = emit (ConsoleLog (lit ''Sending messages to Gemini:'')) w2;
          w4 = emit (Net (InvokeGemini allMessages agentConfig)) w3
      in case invoke_outcome env of
           ReturnsError e \<Rightarrow> (Inl e, w4)
         | Throws e \<Rightarrow> (Inl e, w4)
         | Succeeds \<Rightarrow>
             (case generate env allMessages agentConfig of
                NoData \<Rightarrow> (Inl (lit ''No response received from Gemini''), w4)
              | Reply None \<Rightarrow> (Inl (lit ''No response received from Gemini''), w4)
              | Reply (Some generatedText) \<Rightarrow>
                  if generatedText = [] then (Inl (lit ''No response received from Gemini''), w4)
                  else
                    (let assistantMessage = \<lparr>role = Assistant, content = generatedText\<rparr>;
                         w5 = appendMessage assistantMessage w4
                     in (Inr (), saveMessage (save_assistant_outcome env)
                                   (save_assistant_ts env) assistantMessage
                                   currentSessionId w5))))"

text \<open>
  Lines 174 to 176 followed by the rest of the \<open>try\<close> block: the path taken when the
  captured session id is falsy.
\<close>

definition sendMessage_create ::
  "send_env \<Rightarrow> jsstring \<Rightarrow> auth_user option \<Rightarrow> message \<Rightarrow> message list \<Rightarrow> world
     \<Rightarrow> (jsstring + unit) \<times> world" where
  "sendMessage_create env agentId user userMessage closure_messages w =
     (case createChatSession env user agentId w of
        (None, w1) \<Rightarrow> (Inl (lit ''Failed to create chat session''), w1)
      | (Some currentSessionId, w1) \<Rightarrow>
          if currentSessionId = [] then (Inl (lit ''Failed to create chat session''), w1)
          else sendMessage_session env agentId userMessage closure_messages
                 currentSessionId (setSessionId (Some currentSessionId) w1))"

text \<open>The whole \<open>try\<close> block (lines 171 to 211).\<close>

definition sendMessage_try ::
  "send_env \<Rightarrow> jsstring \<Rightarrow> auth_user option \<Rightarrow> message \<Rightarrow> message list \<Rightarrow> jsstring option
     \<Rightarrow> world \<Rightarrow> (jsstring + unit) \<times> world" where
  "sendMessage_try env agentId user userMessage closure_messages closure_sessionId w =
     (case closure_sessionId of
        None \<Rightarrow> sendMessage_create env agentId user userMessage closure_messages w
      | Some currentSessionId \<Rightarrow>
          if currentSessionId = []
          then sendMessage_create env agentId user userMessage closure_messages w
          else sendMessage_session env agentId userMessage closure_messages currentSessionId w)"

text \<open>
  \<open>sendMessage\<close> (lines 155 to 223). The callback is created anew whenever
  \<open>messages\<close> or \<open>sessionId\<close> change, so a call made from a settled render sees the
  current values of both in its closure.
\<close>

definition sendMessage ::
  "send_env \<Rightarrow> jsstring \<Rightarrow> auth_user option \<Rightarrow> jsstring \<Rightarrow> world \<Rightarrow> world" where
  "sendMessage env agentId user input w =
     (if trim input = [] then w
      else case user of
        None \<Rightarrow>
          toast (lit ''Authentication required'') (lit ''You must be logged in to send messages'') w
      | Some u \<Rightarrow>
          (let userMessage = \<lparr>role = User, content = input\<rparr>;
               w1 = setIsLoading True (appendMessage userMessage w)
           in setIsLoading False
                (case sendMessage_try env agentId user userMessage (messages w) (sessionId w) w1 of
                   (Inl e, w2) \<Rightarrow>
                     toast (lit ''Error'') (if e = [] then lit ''Failed to get response'' else e)
                       (emit (ConsoleError (lit ''Error sending message:'')) w2)
                 | (Inr _, w2) \<Rightarrow> w2)))"

text \<open>
  The two queries of \<open>loadSession\<close>. A result is an error, a rejection, data, or null
  data without an error. \<open>.single()\<close> reports an error unless exactly one row is
  selected, so it never yields \<open>Null\<close>; \<open>loadSession\<close> tests for it all the same.
  The message query selects the rows of the session in ascending order of
  \<open>created_at\<close>; rows with equal time stamps keep the order of the table.
\<close>

datatype 'a result = Err jsstring | Thrown jsstring | Data 'a | Null

definition select_session :: "load_env \<Rightarrow> jsstring \<Rightarrow> backend \<Rightarrow> session_row result" where
  "select_session env sid b =
     (case session_outcome env of
        ReturnsError e \<Rightarrow> Err e
      | Throws e \<Rightarrow> Thrown e
      | Succeeds \<Rightarrow>
          (case filter (\<lambda>r. s_id r = sid) (chat_sessions b) of
             [r] \<Rightarrow> Data r
           | _ \<Rightarrow> Err (coerce_msg env)))"

definition session_messages :: "jsstring \<Rightarrow> backend \<Rightarrow> message_row list" where
  "session_messages sid b =
     sort_key m_created_at (filter (\<lambda>r. m_session_id r = sid) (chat_messages b))"

definition select_messages :: "load_env \<Rightarrow> jsstring \<Rightarrow> backend \<Rightarrow> message_row list result" where
  "select_messages env sid b =
     (case messages_outcome env of
        ReturnsError e \<Rightarrow> Err e
      | Throws e \<Rightarrow> Thrown e
      | Succeeds \<Rightarrow> Data (session_messages sid b))"

text \<open>
  The \<open>try\<close> block of \<open>loadSession\<close> (lines 74 to 126). \<open>type_error_msg\<close> is the
  message of the TypeError that calling \<open>map\<close> on null raises.
\<close>

definition type_error_msg :: jsstring where
  "type_error_msg = lit ''Cannot read properties of null (reading 'map')''"

definition loadSession_try ::
  "load_env \<Rightarrow> auth_user option \<Rightarrow> jsstring \<Rightarrow> world \<Rightarrow> (jsstring + unit) \<times> world" where
  "loadSession_try env user sid w =
     (if sid = [] then (Inl (lit ''No session ID provided''), w)
      else case user of
        None \<Rightarrow> (Inl (lit ''User not authenticated''), w)
      | Some u \<Rightarrow>
          (let w1 = setIsLoading True (setSessionId (Some sid) w);
               w2 = emit (ConsoleLog (lit ''Loading session:'')) w1;
               w3 = emit (Net (SelectSession sid)) w2
           in case select_session env sid (db w3) of
                Err e \<Rightarrow>
                  (Inl (lit ''Failed to fetch session: '' @ e),
                   emit (ConsoleError (lit ''Error fetching session:'')) w3)
              | Thrown e \<Rightarrow> (Inl e, w3)
              | Null \<Rightarrow> (Inl (lit ''Session not found''), w3)
              | Data sessionData \<Rightarrow>
                  if s_user_id sessionData \<noteq> uid u
                  then (Inl (lit ''You don't have permission to access this chat session''),
                        emit (ConsoleError (lit ''Permission denied. Session user:'')) w3)
                  else
                    (let w4 = emit (Net (SelectMessages sid)) w3
                     in case select_messages env sid (db w4) of
                          Err e \<Rightarrow>
                            (Inl (lit ''Failed to fetch messages: '' @ e),
                             emit (ConsoleError (lit ''Error fetching messages:'')) w4)
                        | Thrown e \<Rightarrow> (Inl e, w4)
                        | Null \<Rightarrow> (Inl type_error_msg, w4)
                        | Data rows \<Rightarrow>
                            (let loadedMessages =
                                   map (\<lambda>msg. \<lparr>role = m_role msg, content = m_content msg\<rparr>) rows;
                                 w5 = emit (ConsoleLog (lit ''Loaded messages:'')) w4
                             in (Inr (), setMessages loadedMessages w5)))))"

text \<open>\<open>loadSession\<close> (lines 72 to 137): the \<open>try\<close> block, its \<open>catch\<close> and its \<open>finally\<close>.\<close>

definition loadSession :: "load_env \<Rightarrow> auth_user option \<Rightarrow> jsstring \<Rightarrow> world \<Rightarrow> world" where
  "loadSession env user sid w =
     setIsLoading False
       (case loadSession_try env user sid w of
          (Inl e, w1) \<Rightarrow>
            toast (lit ''Error loading chat session'') e
              (emit (ConsoleError (lit ''Error in loadSession:'')) w1)
        | (Inr _, w1) \<Rightarrow> w1)"

text \<open>\<open>resetChat\<close> (lines 225 to 228).\<close>

definition resetChat :: "world \<Rightarrow> world" where
  "resetChat w = setSessionId None (setMessages [] w)"

section \<open>The page: Chat\<close>

text \<open>
  The regular expression of line 70,
  \<^verbatim>\<open>/^[0-9a-f]{8}-[0-9a-f]{4}-[0-9a-f]{4}-[0-9a-f]{4}-[0-9a-f]{12}$/i\<close>.
  Under the flag \<open>i\<close> (without \<open>u\<close>) a code unit matches \<open>[0-9a-f]\<close> when it is a
  decimal digit or a letter from a to f in either case. The pattern is anchored at both
  ends, so matching is a single left-to-right pass.
\<close>

definition isHexDigit :: "16 word \<Rightarrow> bool" where
  "isHexDigit c \<longleftrightarrow>
     (0x30 \<le> c \<and> c \<le> 0x39) \<or> (0x61 \<le> c \<and> c \<le> 0x66) \<or> (0x41 \<le> c \<and> c \<le> 0x46)"

fun hexRun :: "nat \<Rightarrow> jsstring \<Rightarrow> jsstring option" where
  "hexRun 0 s = Some s"
| "hexRun (Suc n) [] = None"
| "hexRun (Suc n) (c # s) = (if isHexDigit c then hexRun n s else None)"

fun hyphen :: "jsstring \<Rightarrow> jsstring option" where
  "hyphen [] = None"
| "hyphen (c # s) = (if c = 0x2D then Some s else None)"

definition uuidRegex_test :: "jsstring \<Rightarrow> bool" where
  "uuidRegex_test s =
     (Option.bind (hexRun 8 s) (\<lambda>s1. Option.bind (hyphen s1) (\<lambda>s2.
      Option.bind (hexRun 4 s2) (\<lambda>s3. Option.bind (hyphen s3) (\<lambda>s4.
      Option.bind (hexRun 4 s4) (\<lambda>s5. Option.bind (hyphen s5) (\<lambda>s6.
      Option.bind (hexRun 4 s6) (\<lambda>s7. Option.bind (hyphen s7) (\<lambda>s8.
      hexRun 12 s8)))))))) = Some [])"

text \<open>
  \<open>URLSearchParams\<close> is an ordered list of name-value pairs: \<open>get\<close> returns the value
  of the first pair with the name, \<open>delete\<close> removes every pair with the name.
\<close>

type_synonym search_params = "(jsstring \<times> jsstring) list"

definition params_get :: "search_params \<Rightarrow> jsstring \<Rightarrow> jsstring option" where
  "params_get ps name = map_of ps name"

definition params_delete :: "search_params \<Rightarrow> jsstring \<Rightarrow> search_params" where
  "params_delete ps name = filter (\<lambda>(k, v). k \<noteq> name) ps"

text \<open>
  What the first effect of the page does with the \<open>session\<close> parameter (lines 68 to 94).
  \<open>ReplaceState\<close> carries the path and the parameters that are serialised into the new
  URL.
\<close>

datatype page_action =
    PageToast jsstring jsstring
  | PageConsoleError jsstring
  | PageConsoleLog jsstring
  | ReplaceState jsstring search_params
  | LoadSession jsstring

definition session_effect :: "jsstring \<Rightarrow> search_params \<Rightarrow> page_action list" where
  "session_effect pathname searchParams =
     (let sessionParam = params_get searchParams (lit ''session'') in
      case sessionParam of
        None \<Rightarrow> []
      | Some p \<Rightarrow>
          if p = [] then []
          else if \<not> uuidRegex_test p then
            [PageConsoleError (lit ''Invalid session ID format:''),
             PageToast (lit ''Invalid Session'')
               (lit ''The chat session ID is not in the correct format. Starting a new chat instead.''),
             ReplaceState pathname (params_delete searchParams (lit ''session''))]
          else
            [PageConsoleLog (lit ''Loading existing session:''), LoadSession p])"

text \<open>The welcome message and the list that is rendered (lines 119 to 127).\<close>

definition welcomeMessage :: "agent_row option \<Rightarrow> message" where
  "welcomeMessage agent =
     \<lparr>role = Assistant,
      content =
        (case agent of
           Some a \<Rightarrow>
             lit ''Hello! I'm '' @ a_name a @ lit ''. '' @
             (case a_description a of
                None \<Rightarrow> lit ''How can I help you today?''
              | Some d \<Rightarrow> if d = [] then lit ''How can I help you today?'' else d)
         | None \<Rightarrow> lit ''Hello! I'm your AI assistant. How can I help you today?'')\<rparr>"

definition displayMessages :: "agent_row option \<Rightarrow> message list \<Rightarrow> message list" where
  "displayMessages agent msgs = (if length msgs > 0 then msgs else [welcomeMessage agent])"

section \<open>Properties of traces\<close>

text \<open>
  \<open>extends_with P w w'\<close>: the trace of \<open>w'\<close> is the trace of \<open>w\<close> followed by events
  that all satisfy \<open>P\<close>.
\<close>

definition extends_with :: "(event \<Rightarrow> bool) \<Rightarrow> world \<Rightarrow> world \<Rightarrow> bool" where
  "extends_with P w w' \<longleftrightarrow> (\<exists>evs. trace w' = trace w @ evs \<and> list_all P evs)"

text \<open>
  The events a \<open>try\<close> block of \<open>sendMessage\<close> may produce: anything but a change of
  \<open>isLoading\<close> or a replacement of the message list, and an appended message only when
  the block succeeds, in which case it is the assistant's.
\<close>

fun try_event :: "bool \<Rightarrow> event \<Rightarrow> bool" where
  "try_event ok (Set (AppendMessage m)) = (ok \<and> role m = Assistant)"
| "try_event ok (Set (ReplaceMessages ms)) = False"
| "try_event ok (Set (SetIsLoading b)) = False"
| "try_event ok _ = True"

text \<open>
  \<open>bracketed l evs\<close>: running through \<open>evs\<close> with the loading flag initially \<open>l\<close>,
  every network request is issued while the flag is set.
\<close>

fun bracketed :: "bool \<Rightarrow> event list \<Rightarrow> bool" where
  "bracketed l [] = True"
| "bracketed l (Set (SetIsLoading b) # es) = bracketed b es"
| "bracketed l (Net r # es) = (l \<and> bracketed l es)"
| "bracketed l (e # es) = bracketed l es"

text \<open>
  The conditions under which the \<open>try\<close> block of \<open>sendMessage\<close> throws:
  \<open>needs_session\<close> is the test \<open>!currentSessionId\<close> of line 173,
  \<open>creation_fails\<close> says that \<open>createChatSession\<close> yields no usable id, and
  \<open>generation_fails\<close> that the generation call reports an error, rejects, or answers
  without a non-empty \<open>generatedText\<close>.
\<close>

definition needs_session :: "jsstring option \<Rightarrow> bool" where
  "needs_session s \<longleftrightarrow> s = None \<or> s = Some []"

definition creation_fails :: "send_env \<Rightarrow> bool" where
  "creation_fails env \<longleftrightarrow> create_outcome env \<noteq> Succeeds \<or> uuid env = []"

definition generation_fails :: "send_env \<Rightarrow> message list \<Rightarrow> agent_row option \<Rightarrow> bool" where
  "generation_fails env ms cfg \<longleftrightarrow>
     invoke_outcome env \<noteq> Succeeds \<or> generate env ms cfg = NoData \<or>
     generate env ms cfg = Reply None \<or> generate env ms cfg = Reply (Some [])"

section \<open>Example inputs\<close>

text \<open>
  A database with one agent, a session of Alice and a session of Bob, and three stored
  messages; a world in which nothing has happened yet; and environments in which every
  call succeeds or exactly one call fails.
\<close>

definition ex_user :: auth_user where
  "ex_user = \<lparr>uid = lit ''alice''\<rparr>"

definition ex_agent :: jsstring where
  "ex_agent = lit ''agent-1''"

definition ex_db :: backend where
  "ex_db =
     \<lparr>chat_sessions =
        [\<lparr>s_id = lit ''s-alice'', s_agent_id = lit ''agent-1'', s_user_id = lit ''alice'',
          s_title = lit ''New Chat'', s_created_at = lit ''t0'', s_updated_at = lit ''t0''\<rparr>,
         \<lparr>s_id = lit ''s-bob'', s_agent_id = lit ''agent-1'', s_user_id = lit ''bob'',
          s_title = lit ''New Chat'', s_created_at = lit ''t1'', s_updated_at = lit ''t1''\<rparr>],
      chat_messages =
        [\<lparr>m_session_id = lit ''s-alice'', m_role = Assistant, m_content = lit ''pong'',
          m_created_at = 20\<rparr>,
         \<lparr>m_session_id = lit ''s-bob'', m_role = User, m_content = lit ''secret'',
          m_created_at = 15\<rparr>,
         \<lparr>m_session_id = lit ''s-alice'', m_role = User, m_content = lit ''ping'',
          m_created_at = 10\<rparr>],
      agents =
        [\<lparr>a_id = lit ''agent-1'', a_name = lit ''Ada'', a_description = Some (lit ''I count.'')\<rparr>]\<rparr>"

definition ex_world :: world where
  "ex_world = \<lparr>messages = [], isLoading = False, sessionId = None, db = ex_db, trace = []\<rparr>"

definition ex_env :: send_env where
  "ex_env =
     \<lparr>uuid = lit ''s-new'', created_iso = lit ''t2'', updated_iso = lit ''t2'',
      create_outcome = Succeeds, save_user_outcome = Succeeds, save_user_ts = 30,
      agent_outcome = Succeeds, invoke_outcome = Succeeds,
      generate = (\<lambda>ms cfg. Reply (Some (lit ''Hello''))),
      save_assistant_outcome = Succeeds, save_assistant_ts = 31\<rparr>"

definition ex_env_agent_down :: send_env where
  "ex_env_agent_down = ex_env\<lparr>agent_outcome := ReturnsError (lit ''timeout'')\<rparr>"

definition ex_env_save_rejected :: send_env where
  "ex_env_save_rejected =
     ex_env\<lparr>save_user_outcome := ReturnsError (lit ''new row violates row-level security policy'')\<rparr>"

definition ex_env_gen_error :: send_env where
  "ex_env_gen_error = ex_env\<lparr>invoke_outcome := ReturnsError (lit ''quota'')\<rparr>"

definition ex_load_env :: load_env where
  "ex_load_env =
     \<lparr>session_outcome = Succeeds, messages_outcome = Succeeds, coerce_msg = lit ''no rows''\<rparr>"

section \<open>Auxiliary lemmas\<close>

lemma trim_empty_iff: "trim s = [] \<longleftrightarrow> (\<forall>c\<in>set s. isWhiteSpace c)"
proof
  assume "trim s = []"
  then have "\<forall>x\<in>set (dropWhile isWhiteSpace s). isWhiteSpace x"
    by (simp add: trim_def dropWhile_eq_Nil_conv)
  then have "dropWhile isWhiteSpace s = []"
    using hd_dropWhile[of isWhiteSpace s] by (cases "dropWhile isWhiteSpace s") auto
  then show "\<forall>c\<in>set s. isWhiteSpace c" by (simp add: dropWhile_eq_Nil_conv)
next
  assume "\<forall>c\<in>set s. isWhiteSpace c"
  then show "trim s = []" by (auto simp: trim_def dest: set_dropWhileD)
qed

lemma emit_simps [simp]:
  "messages (emit e w) = messages w" "isLoading (emit e w) = isLoading w"
  "sessionId (emit e w) = sessionId w" "db (emit e w) = db w"
  "trace (emit e w) = trace w @ [e]"
  by (simp_all add: emit_def)

lemma appendMessage_simps [simp]:
  "messages (appendMessage m w) = messages w @ [m]" "isLoading (appendMessage m w) = isLoading w"
  "sessionId (appendMessage m w) = sessionId w" "db (appendMessage m w) = db w"
  "trace (appendMessage m w) = trace w @ [Set (AppendMessage m)]"
  by (simp_all add: appendMessage_def)

lemma setMessages_simps [simp]:
  "messages (setMessages ms w) = ms" "isLoading (setMessages ms w) = isLoading w"
  "sessionId (setMessages ms w) = sessionId w" "db (setMessages ms w) = db w"
  "trace (setMessages ms w) = trace w @ [Set (ReplaceMessages ms)]"
  by (simp_all add: setMessages_def)

lemma setIsLoading_simps [simp]:
  "messages (setIsLoading b w) = messages w" "isLoading (setIsLoading b w) = b"
  "sessionId (setIsLoading b w) = sessionId w" "db (setIsLoading b w) = db w"
  "trace (setIsLoading b w) = trace w @ [Set (SetIsLoading b)]"
  by (simp_all add: setIsLoading_def)

lemma setSessionId_simps [simp]:
  "messages (setSessionId s w) = messages w" "isLoading (setSessionId s w) = isLoading w"
  "sessionId (setSessionId s w) = s" "db (setSessionId s w) = db w"
  "trace (setSessionId s w) = trace w @ [Set (SetSessionId s)]"
  by (simp_all add: setSessionId_def)

lemma toast_simps [simp]:
  "messages (toast t d w) = messages w" "isLoading (toast t d w) = isLoading w"
  "sessionId (toast t d w) = sessionId w" "db (toast t d w) = db w"
  "trace (toast t d w) = trace w @ [Toast t d]"
  by (simp_all add: toast_def)

lemma saveMessage_state [simp]:
  "messages (saveMessage oc ts m sid w) = messages w"
  "isLoading (saveMessage oc ts m sid w) = isLoading w"
  "sessionId (saveMessage oc ts m sid w) = sessionId w"
  "chat_sessions (db (saveMessage oc ts m sid w)) = chat_sessions (db w)"
  "agents (db (saveMessage oc ts m sid w)) = agents (db w)"
  by (simp_all add: saveMessage_def Let_def split: outcome.splits)

lemma saveMessage_rows:
  "chat_messages (db (saveMessage oc ts m sid w)) =
     chat_messages (db w) @
       (if oc = Succeeds
        then [\<lparr>m_session_id = sid, m_role = role m, m_content = content m, m_created_at = ts\<rparr>]
        else [])"
  by (simp add: saveMessage_def Let_def split: outcome.splits)

lemma saveMessage_trace:
  "trace (saveMessage oc ts m sid w) =
     trace w @ Net (InsertMessage sid m) #
       (case oc of Throws e \<Rightarrow> [ConsoleError (lit ''Error saving message:'')] | _ \<Rightarrow> [])"
  by (simp add: saveMessage_def Let_def split: outcome.splits)

lemma saveMessage_returned_error:
  "new_events w (saveMessage (ReturnsError e) ts m sid w) = [Net (InsertMessage sid m)]"
  "db (saveMessage (ReturnsError e) ts m sid w) = db w"
  by (simp_all add: saveMessage_def new_events_def Let_def)

lemma saveMessage_thrown:
  "new_events w (saveMessage (Throws e) ts m sid w) =
     [Net (InsertMessage sid m), ConsoleError (lit ''Error saving message:'')]"
  "db (saveMessage (Throws e) ts m sid w) = db w"
  by (simp_all add: saveMessage_def new_events_def Let_def)

lemma extends_with_trans:
  "extends_with P w w1 \<Longrightarrow> extends_with P w1 w2 \<Longrightarrow> extends_with P w w2"
  by (auto simp: extends_with_def)

lemma extends_with_step:
  "trace w' = trace w @ evs \<Longrightarrow> list_all P evs \<Longrightarrow> extends_with P w w'"
  by (auto simp: extends_with_def)

lemma saveMessage_extends: "extends_with (try_event ok) w (saveMessage oc ts m sid w)"
  by (rule extends_with_step[OF saveMessage_trace]) (simp split: outcome.splits)

lemma getAgentConfig_state [simp]:
  "messages (snd (getAgentConfig oc a w)) = messages w"
  "isLoading (snd (getAgentConfig oc a w)) = isLoading w"
  "sessionId (snd (getAgentConfig oc a w)) = sessionId w"
  "db (snd (getAgentConfig oc a w)) = db w"
  "fst (getAgentConfig oc a w) = select_agent oc a (agents (db w))"
  by (simp_all add: getAgentConfig_def Let_def split: option.splits)

lemma getAgentConfig_extends: "extends_with (try_event ok) w (snd (getAgentConfig oc a w))"
  by (simp add: getAgentConfig_def Let_def extends_with_def split: option.splits)

lemma createChatSession_state [simp]:
  "messages (snd (createChatSession env user a w)) = messages w"
  "isLoading (snd (createChatSession env user a w)) = isLoading w"
  "sessionId (snd (createChatSession env user a w)) = sessionId w"
  "chat_messages (db (snd (createChatSession env user a w))) = chat_messages (db w)"
  "agents (db (snd (createChatSession env user a w))) = agents (db w)"
  by (simp_all add: createChatSession_def Let_def split: option.splits outcome.splits)

lemma createChatSession_fst:
  "fst (createChatSession env (Some u) a w) =
     (if create_outcome env = Succeeds then Some (uuid env) else None)"
  by (simp add: createChatSession_def Let_def split: outcome.splits)

lemma createChatSession_rows:
  "chat_sessions (db (snd (createChatSession env (Some u) a w))) =
     chat_sessions (db w) @
       (if create_outcome env = Succeeds
        then [\<lparr>s_id = uuid env, s_agent_id = a, s_user_id = uid u, s_title = lit ''New Chat'',
               s_created_at = created_iso env, s_updated_at = updated_iso env\<rparr>]
        else [])"
  by (simp add: createChatSession_def Let_def split: outcome.splits)

lemma createChatSession_extends:
  "extends_with (try_event ok) w (snd (createChatSession env user a w))"
  by (simp add: createChatSession_def Let_def extends_with_def split: option.splits outcome.splits)

lemma session_ok:
  assumes "invoke_outcome env = Succeeds"
    and "generate env (cm @ [um]) (select_agent (agent_outcome env) a (agents (db w))) = Reply (Some g)"
    and "g \<noteq> []"
  shows "fst (sendMessage_session env a um cm sid w) = Inr ()"
    and "messages (snd (sendMessage_session env a um cm sid w)) =
           messages w @ [\<lparr>role = Assistant, content = g\<rparr>]"
    and "chat_messages (db (snd (sendMessage_session env a um cm sid w))) =
           chat_messages (db w) @
           (if save_user_outcome env = Succeeds
            then [\<lparr>m_session_id = sid, m_role = role um, m_content = content um,
                   m_created_at = save_user_ts env\<rparr>] else []) @
           (if save_assistant_outcome env = Succeeds
            then [\<lparr>m_session_id = sid, m_role = Assistant, m_content = g,
                   m_created_at = save_assistant_ts env\<rparr>] else [])"
  using assms by (simp_all add: sendMessage_session_def Let_def split_beta saveMessage_rows)

lemma session_fail:
  assumes "generation_fails env (cm @ [um]) (select_agent (agent_outcome env) a (agents (db w)))"
  shows "\<exists>e. fst (sendMessage_session env a um cm sid w) = Inl e"
    and "messages (snd (sendMessage_session env a um cm sid w)) = messages w"
  using assms
  by (auto simp: generation_fails_def sendMessage_session_def Let_def split_beta
           split: outcome.splits gen_data.splits option.splits)

lemma session_frame [simp]:
  "sessionId (snd (sendMessage_session env a um cm sid w)) = sessionId w"
  "isLoading (snd (sendMessage_session env a um cm sid w)) = isLoading w"
  "chat_sessions (db (snd (sendMessage_session env a um cm sid w))) = chat_sessions (db w)"
  "agents (db (snd (sendMessage_session env a um cm sid w))) = agents (db w)"
  by (simp_all add: sendMessage_session_def Let_def split_beta
           split: outcome.splits gen_data.splits option.splits)

lemma extends_with_app:
  "extends_with P w w1 \<Longrightarrow> trace w2 = trace w1 @ evs \<Longrightarrow> list_all P evs \<Longrightarrow> extends_with P w w2"
  by (auto simp: extends_with_def)

lemma session_extends:
  "extends_with (try_event (\<not> isl (fst (sendMessage_session env a um cm sid w)))) w
     (snd (sendMessage_session env a um cm sid w))"
proof -
  define ok where "ok = (\<not> isl (fst (sendMessage_session env a um cm sid w)))"
  define w1 where "w1 = saveMessage (save_user_outcome env) (save_user_ts env) um sid w"
  define w2 where "w2 = snd (getAgentConfig (agent_outcome env) a w1)"
  define cfg where "cfg = fst (getAgentConfig (agent_outcome env) a w1)"
  define w4 where "w4 = emit (Net (InvokeGemini (cm @ [um]) cfg))
                          (emit (ConsoleLog (lit ''Sending messages to Gemini:'')) w2)"
  have "extends_with (try_event ok) w w1"
    unfolding w1_def by (rule saveMessage_extends)
  moreover have "extends_with (try_event ok) w1 w2"
    unfolding w2_def by (rule getAgentConfig_extends)
  ultimately have "extends_with (try_event ok) w w2"
    by (rule extends_with_trans)
  then have e4: "extends_with (try_event ok) w w4"
    by (rule extends_with_app) (simp add: w4_def, simp)
  show ?thesis
  proof (cases "isl (fst (sendMessage_session env a um cm sid w))")
    case True
    then have "snd (sendMessage_session env a um cm sid w) = w4"
      by (simp add: sendMessage_session_def Let_def split_beta w4_def w2_def w1_def cfg_def
               split: outcome.splits gen_data.splits option.splits if_splits)
    with e4 show ?thesis by (simp add: ok_def)
  next
    case False
    then obtain g where
      "snd (sendMessage_session env a um cm sid w) =
         saveMessage (save_assistant_outcome env) (save_assistant_ts env)
           \<lparr>role = Assistant, content = g\<rparr> sid
           (appendMessage \<lparr>role = Assistant, content = g\<rparr> w4)"
      by (simp add: sendMessage_session_def Let_def split_beta w4_def w2_def w1_def cfg_def
               split: outcome.splits gen_data.splits option.splits if_splits)
    moreover have "ok" using False by (simp add: ok_def)
    ultimately show ?thesis
      using extends_with_trans[OF extends_with_app[OF e4, of "appendMessage \<lparr>role = Assistant, content = g\<rparr> w4"
              "[Set (AppendMessage \<lparr>role = Assistant, content = g\<rparr>)]"] saveMessage_extends]
      by (simp add: ok_def)
  qed
qed


lemma create_ok:
  assumes "create_outcome env = Succeeds" and "uuid env \<noteq> []"
    and "invoke_outcome env = Succeeds"
    and "generate env (cm @ [um]) (select_agent (agent_outcome env) a (agents (db w))) = Reply (Some g)"
    and "g \<noteq> []"
  shows "fst (sendMessage_create env a (Some u) um cm w) = Inr ()"
    and "messages (snd (sendMessage_create env a (Some u) um cm w)) =
           messages w @ [\<lparr>role = Assistant, content = g\<rparr>]"
    and "sessionId (snd (sendMessage_create env a (Some u) um cm w)) = Some (uuid env)"
    and "chat_messages (db (snd (sendMessage_create env a (Some u) um cm w))) =
           chat_messages (db w) @
           (if save_user_outcome env = Succeeds
            then [\<lparr>m_session_id = uuid env, m_role = role um, m_content = content um,
                   m_created_at = save_user_ts env\<rparr>] else []) @
           (if save_assistant_outcome env = Succeeds
            then [\<lparr>m_session_id = uuid env, m_role = Assistant, m_content = g,
                   m_created_at = save_assistant_ts env\<rparr>] else [])"
    and "chat_sessions (db (snd (sendMessage_create env a (Some u) um cm w))) =
           chat_sessions (db w) @
           [\<lparr>s_id = uuid env, s_agent_id = a, s_user_id = uid u, s_title = lit ''New Chat'',
             s_created_at = created_iso env, s_updated_at = updated_iso env\<rparr>]"
  using assms
  by (simp_all add: sendMessage_create_def split_beta createChatSession_fst
        createChatSession_rows session_ok)

lemma create_fail:
  assumes "creation_fails env \<or>
           generation_fails env (cm @ [um]) (select_agent (agent_outcome env) a (agents (db w)))"
  shows "\<exists>e. fst (sendMessage_create env a (Some u) um cm w) = Inl e"
    and "messages (snd (sendMessage_create env a (Some u) um cm w)) = messages w"
  using assms
  by (auto simp: sendMessage_create_def split_beta createChatSession_fst creation_fails_def
        session_fail)

lemma create_frame [simp]:
  "isLoading (snd (sendMessage_create env a user um cm w)) = isLoading w"
  "agents (db (snd (sendMessage_create env a user um cm w))) = agents (db w)"
  by (simp_all add: sendMessage_create_def split_beta split: option.splits)

lemma create_extends:
  "extends_with (try_event (\<not> isl (fst (sendMessage_create env a user um cm w)))) w
     (snd (sendMessage_create env a user um cm w))"
proof -
  define ok where "ok = (\<not> isl (fst (sendMessage_create env a user um cm w)))"
  define w1 where "w1 = snd (createChatSession env user a w)"
  have e1: "extends_with (try_event ok) w w1"
    unfolding w1_def by (rule createChatSession_extends)
  show ?thesis
  proof (cases "fst (createChatSession env user a w)")
    case None
    then show ?thesis using e1
      by (simp add: sendMessage_create_def split_beta w1_def ok_def)
  next
    case (Some s)
    show ?thesis
    proof (cases "s = []")
      case True
      with Some show ?thesis using e1
        by (simp add: sendMessage_create_def split_beta w1_def ok_def)
    next
      case False
      have e2: "extends_with (try_event ok) w (setSessionId (Some s) w1)"
        using e1 by (rule extends_with_app) (simp, simp)
      have "ok = (\<not> isl (fst (sendMessage_session env a um cm s (setSessionId (Some s) w1))))"
        using Some False by (simp add: ok_def sendMessage_create_def split_beta w1_def)
      then have "extends_with (try_event ok) (setSessionId (Some s) w1)
                   (snd (sendMessage_session env a um cm s (setSessionId (Some s) w1)))"
        using session_extends by simp
      with e2 have "extends_with (try_event ok) w
                   (snd (sendMessage_session env a um cm s (setSessionId (Some s) w1)))"
        by (rule extends_with_trans)
      then show ?thesis using Some False
        by (simp add: sendMessage_create_def split_beta w1_def ok_def)
    qed
  qed
qed

lemma try_extends:
  "extends_with (try_event (\<not> isl (fst (sendMessage_try env a user um cm cs w)))) w
     (snd (sendMessage_try env a user um cm cs w))"
  using create_extends session_extends
  by (simp add: sendMessage_try_def split: option.splits)

lemma try_frame [simp]:
  "isLoading (snd (sendMessage_try env a user um cm cs w)) = isLoading w"
  "agents (db (snd (sendMessage_try env a user um cm cs w))) = agents (db w)"
  by (simp_all add: sendMessage_try_def split: option.splits)

lemma try_fail:
  assumes "(needs_session cs \<and> creation_fails env) \<or>
           generation_fails env (cm @ [um]) (select_agent (agent_outcome env) a (agents (db w)))"
  shows "\<exists>e. fst (sendMessage_try env a (Some u) um cm cs w) = Inl e"
    and "messages (snd (sendMessage_try env a (Some u) um cm cs w)) = messages w"
  using assms
  by (auto simp: sendMessage_try_def needs_session_def create_fail session_fail
           split: option.splits)

lemma bracketed_try:
  "list_all (try_event ok) evs \<Longrightarrow> bracketed True (evs @ rest) = bracketed True rest"
proof (induction evs)
  case Nil
  then show ?case by simp
next
  case (Cons e evs)
  then show ?case
  proof (cases e)
    case (Set x)
    with Cons show ?thesis by (cases x) auto
  qed simp_all
qed


lemma try_ok:
  assumes "needs_session cs \<longrightarrow> \<not> creation_fails env"
    and "invoke_outcome env = Succeeds"
    and "generate env (cm @ [um]) (select_agent (agent_outcome env) a (agents (db w))) = Reply (Some g)"
    and "g \<noteq> []"
    and "sessionId w = cs"
  shows "fst (sendMessage_try env a (Some u) um cm cs w) = Inr ()"
    and "messages (snd (sendMessage_try env a (Some u) um cm cs w)) =
           messages w @ [\<lparr>role = Assistant, content = g\<rparr>]"
    and "sessionId (snd (sendMessage_try env a (Some u) um cm cs w)) =
           Some (if needs_session cs then uuid env else the cs)"
    and "chat_messages (db (snd (sendMessage_try env a (Some u) um cm cs w))) =
           chat_messages (db w) @
           (if save_user_outcome env = Succeeds
            then [\<lparr>m_session_id = (if needs_session cs then uuid env else the cs),
                   m_role = role um, m_content = content um,
                   m_created_at = save_user_ts env\<rparr>] else []) @
           (if save_assistant_outcome env = Succeeds
            then [\<lparr>m_session_id = (if needs_session cs then uuid env else the cs),
                   m_role = Assistant, m_content = g,
                   m_created_at = save_assistant_ts env\<rparr>] else [])"
  using assms
  by (auto simp: sendMessage_try_def needs_session_def creation_fails_def create_ok session_ok
           split: option.splits)

lemma sendMessage_unfold:
  assumes "trim input \<noteq> []"
  shows "sendMessage env a (Some u) input w =
     setIsLoading False
       (let r = sendMessage_try env a (Some u) \<lparr>role = User, content = input\<rparr> (messages w)
                  (sessionId w) (setIsLoading True (appendMessage \<lparr>role = User, content = input\<rparr> w))
        in case fst r of
             Inl e \<Rightarrow> toast (lit ''Error'') (if e = [] then lit ''Failed to get response'' else e)
                       (emit (ConsoleError (lit ''Error sending message:'')) (snd r))
           | Inr _ \<Rightarrow> snd r)"
  using assms by (simp add: sendMessage_def Let_def split_beta split: sum.splits prod.splits)

lemma new_events_eq: "trace w' = trace w @ evs \<Longrightarrow> new_events w w' = evs"
  by (simp add: new_events_def)

lemma try_event_no_assistant:
  "list_all (try_event False) evs \<Longrightarrow> \<not> list_ex appends_assistant evs"
proof (induction evs)
  case Nil
  then show ?case by simp
next
  case (Cons e evs)
  then show ?case
  proof (cases e)
    case (Set x)
    with Cons show ?thesis by (cases x) auto
  qed simp_all
qed

lemma sendMessage_trace:
  assumes "trim input \<noteq> []"
  shows "\<exists>evs. list_all (try_event (\<not> isl (fst (sendMessage_try env a (Some u)
                  \<lparr>role = User, content = input\<rparr> (messages w) (sessionId w)
                  (setIsLoading True (appendMessage \<lparr>role = User, content = input\<rparr> w)))))) evs \<and>
           trace (sendMessage env a (Some u) input w) =
             trace w @ [Set (AppendMessage \<lparr>role = User, content = input\<rparr>), Set (SetIsLoading True)] @
             evs @
             (case fst (sendMessage_try env a (Some u) \<lparr>role = User, content = input\<rparr>
                          (messages w) (sessionId w)
                          (setIsLoading True (appendMessage \<lparr>role = User, content = input\<rparr> w))) of
                Inl e \<Rightarrow> [ConsoleError (lit ''Error sending message:''),
                           Toast (lit ''Error'') (if e = [] then lit ''Failed to get response'' else e)]
              | Inr _ \<Rightarrow> []) @
             [Set (SetIsLoading False)]"
proof -
  let ?um = "\<lparr>role = User, content = input\<rparr>"
  let ?w1 = "setIsLoading True (appendMessage ?um w)"
  let ?r = "sendMessage_try env a (Some u) ?um (messages w) (sessionId w) ?w1"
  obtain evs where evs: "trace (snd ?r) = trace ?w1 @ evs"
      "list_all (try_event (\<not> isl (fst ?r))) evs"
    using try_extends[of env a "Some u" ?um "messages w" "sessionId w" ?w1]
    by (auto simp: extends_with_def)
  have "trace (sendMessage env a (Some u) input w) =
          trace w @ [Set (AppendMessage ?um), Set (SetIsLoading True)] @ evs @
          (case fst ?r of
             Inl e \<Rightarrow> [ConsoleError (lit ''Error sending message:''),
                        Toast (lit ''Error'') (if e = [] then lit ''Failed to get response'' else e)]
           | Inr _ \<Rightarrow> []) @ [Set (SetIsLoading False)]"
    using evs(1) by (simp add: sendMessage_unfold[OF assms] Let_def split: sum.splits)
  with evs(2) show ?thesis by blast
qed

lemma loadSession_unfold:
  "loadSession env user sid w =
     setIsLoading False
       (case fst (loadSession_try env user sid w) of
          Inl e \<Rightarrow> toast (lit ''Error loading chat session'') e
                    (emit (ConsoleError (lit ''Error in loadSession:''))
                       (snd (loadSession_try env user sid w)))
        | Inr _ \<Rightarrow> snd (loadSession_try env user sid w))"
  by (simp add: loadSession_def split_beta split: sum.splits prod.splits)

lemma loadSession_try_bracketed:
  "\<exists>evs. trace (snd (loadSession_try env user sid w)) = trace w @ evs \<and>
         (\<forall>rest. bracketed False (evs @ rest) =
            bracketed (evs \<noteq> []) rest)"
  by (simp add: loadSession_try_def Let_def split: option.splits result.splits)

lemma loadSession_denied:
  assumes "sid \<noteq> []" and "session_outcome env = Succeeds"
    and "filter (\<lambda>r. s_id r = sid) (chat_sessions (db w)) = [r]"
    and "s_user_id r \<noteq> uid u"
  shows "fst (loadSession_try env (Some u) sid w) =
           Inl (lit ''You don't have permission to access this chat session'')"
    and "messages (loadSession env (Some u) sid w) = messages w"
    and "sessionId (loadSession env (Some u) sid w) = Some sid"
  using assms
  by (simp_all add: loadSession_def loadSession_try_def select_session_def Let_def)

lemma valid_session_param:
  assumes "params_get searchParams (lit ''session'') = Some p" and "uuidRegex_test p"
  shows "session_effect pathname searchParams =
           [PageConsoleLog (lit ''Loading existing session:''), LoadSession p]"
proof -
  have "p \<noteq> []"
    using assms(2) by (auto simp: uuidRegex_test_def eval_nat_numeral)
  then show ?thesis
    using assms by (simp add: session_effect_def)
qed

section \<open>The claims\<close>

text \<open>
  C1. For every input that is blank or consists of white space only, and for every call
  made while no user is authenticated, \<open>sendMessage\<close> leaves the message list, the
  session id, the loading flag and the persisted tables as they were, and issues no
  network request: the trace grows by events none of which is a request.
\<close>

theorem sendMessage_noop:
  assumes "(\<forall>c\<in>set input. isWhiteSpace c) \<or> user = None"
  shows "messages (sendMessage env agentId user input w) = messages w \<and>
         sessionId (sendMessage env agentId user input w) = sessionId w \<and>
         isLoading (sendMessage env agentId user input w) = isLoading w \<and>
         db (sendMessage env agentId user input w) = db w \<and>
         trace (sendMessage env agentId user input w) =
           trace w @ new_events w (sendMessage env agentId user input w) \<and>
         \<not> list_ex is_net (new_events w (sendMessage env agentId user input w))"
  using assms by (auto simp: sendMessage_def trim_empty_iff new_events_def)

theorem sendMessage_noop_witness:
  "list_all isWhiteSpace (lit ''  '') \<and>
   messages (sendMessage ex_env ex_agent (Some ex_user) (lit ''  '') ex_world) = messages ex_world \<and>
   sessionId (sendMessage ex_env ex_agent (Some ex_user) (lit ''  '') ex_world) = sessionId ex_world \<and>
   db (sendMessage ex_env ex_agent (Some ex_user) (lit ''  '') ex_world) = db ex_world \<and>
   \<not> list_ex is_net (new_events ex_world (sendMessage ex_env ex_agent None (lit ''hi'') ex_world))"
proof -
  have h: "\<forall>c\<in>set (lit ''  ''). isWhiteSpace c"
    by (simp add: lit_def isWhiteSpace_def)
  show ?thesis
    using h sendMessage_noop[of "lit ''  ''" "Some ex_user" ex_env ex_agent ex_world]
      sendMessage_noop[of "lit ''hi''" None ex_env ex_agent ex_world]
    by (simp add: list_all_iff)
qed

text \<open>
  C2. The session of Bob is loaded while Alice is signed in. The call fails with the
  permission error and the message list is untouched, but the session id of the hook,
  null before the call, is Bob's session afterwards: line 82 stores the id before the
  owner is verified.
\<close>

theorem loadSession_denied_stores_session_id:
  "sessionId ex_world = None \<and>
   fst (loadSession_try ex_load_env (Some ex_user) (lit ''s-bob'') ex_world) =
     Inl (lit ''You don't have permission to access this chat session'') \<and>
   messages (loadSession ex_load_env (Some ex_user) (lit ''s-bob'') ex_world) = messages ex_world \<and>
   sessionId (loadSession ex_load_env (Some ex_user) (lit ''s-bob'') ex_world) = Some (lit ''s-bob'')"
  by (simp add: loadSession_def loadSession_try_def select_session_def ex_world_def ex_db_def
        ex_load_env_def ex_user_def lit_def Let_def)

text \<open>
  C3. For every input that is not blank, sent by an authenticated user: if a session
  exists or is created, both message writes are stored, and the generation function
  answers the request with a non-empty \<open>generatedText\<close>, then afterwards the message
  list is the previous list followed by the user message with the input and the
  assistant message with the generated text, and the table of messages has gained
  exactly these two rows, in this order, under one session id, which is the session id
  of the hook.
\<close>

theorem sendMessage_success:
  assumes "trim input \<noteq> []" and "user = Some u"
    and "needs_session (sessionId w) \<longrightarrow> \<not> creation_fails env"
    and "save_user_outcome env = Succeeds" and "save_assistant_outcome env = Succeeds"
    and "invoke_outcome env = Succeeds"
    and "generate env (messages w @ [\<lparr>role = User, content = input\<rparr>])
           (select_agent (agent_outcome env) agentId (agents (db w))) = Reply (Some g)"
    and "g \<noteq> []"
  shows "messages (sendMessage env agentId user input w) =
           messages w @ [\<lparr>role = User, content = input\<rparr>, \<lparr>role = Assistant, content = g\<rparr>] \<and>
         (\<exists>sid. sessionId (sendMessage env agentId user input w) = Some sid \<and> sid \<noteq> [] \<and>
            chat_messages (db (sendMessage env agentId user input w)) =
              chat_messages (db w) @
              [\<lparr>m_session_id = sid, m_role = User, m_content = input,
                m_created_at = save_user_ts env\<rparr>,
               \<lparr>m_session_id = sid, m_role = Assistant, m_content = g,
                m_created_at = save_assistant_ts env\<rparr>])"
proof -
  let ?um = "\<lparr>role = User, content = input\<rparr>"
  let ?w1 = "setIsLoading True (appendMessage ?um w)"
  let ?r = "sendMessage_try env agentId (Some u) ?um (messages w) (sessionId w) ?w1"
  let ?sid = "if needs_session (sessionId w) then uuid env else the (sessionId w)"
  have g: "generate env (messages w @ [?um])
             (select_agent (agent_outcome env) agentId (agents (db ?w1))) = Reply (Some g)"
    using assms(7) by simp
  have s: "sessionId ?w1 = sessionId w" by simp
  note ok = try_ok[OF assms(3) assms(6) g assms(8) s, of u]
  have "sendMessage env agentId (Some u) input w = setIsLoading False (snd ?r)"
    using ok(1) by (simp add: sendMessage_unfold[OF assms(1)] Let_def)
  moreover have "?sid \<noteq> []"
    using assms(3) by (auto simp: needs_session_def creation_fails_def)
  ultimately show ?thesis
    using ok(2,3,4) assms(2,4,5) by simp
qed

theorem sendMessage_success_witness:
  "trim (lit ''hi'') \<noteq> [] \<and>
   messages (sendMessage ex_env ex_agent (Some ex_user) (lit ''hi'') ex_world) =
     messages ex_world @
       [\<lparr>role = User, content = lit ''hi''\<rparr>, \<lparr>role = Assistant, content = lit ''Hello''\<rparr>] \<and>
   (\<exists>sid. sessionId (sendMessage ex_env ex_agent (Some ex_user) (lit ''hi'') ex_world) = Some sid \<and>
      sid \<noteq> [] \<and>
      chat_messages (db (sendMessage ex_env ex_agent (Some ex_user) (lit ''hi'') ex_world)) =
        chat_messages (db ex_world) @
        [\<lparr>m_session_id = sid, m_role = User, m_content = lit ''hi'',
          m_created_at = save_user_ts ex_env\<rparr>,
         \<lparr>m_session_id = sid, m_role = Assistant, m_content = lit ''Hello'',
          m_created_at = save_assistant_ts ex_env\<rparr>])"
proof -
  have h1: "trim (lit ''hi'') \<noteq> []"
    by (simp add: trim_def lit_def isWhiteSpace_def)
  have h3: "needs_session (sessionId ex_world) \<longrightarrow> \<not> creation_fails ex_env"
    by (simp add: creation_fails_def ex_env_def lit_def)
  have h4: "save_user_outcome ex_env = Succeeds" "save_assistant_outcome ex_env = Succeeds"
    "invoke_outcome ex_env = Succeeds"
    by (simp_all add: ex_env_def)
  have h7: "generate ex_env (messages ex_world @ [\<lparr>role = User, content = lit ''hi''\<rparr>])
              (select_agent (agent_outcome ex_env) ex_agent (agents (db ex_world))) =
            Reply (Some (lit ''Hello''))"
    by (simp add: ex_env_def)
  have h8: "lit ''Hello'' \<noteq> []"
    by (simp add: lit_def)
  show ?thesis
    using h1 sendMessage_success[OF h1 refl h3 h4 h7 h8, of ex_user] by blast
qed

text \<open>
  C4 (as stated, refuted). The fetch of the agent configuration fails, the other steps
  succeed: no notification is shown and the assistant message is appended.
\<close>

theorem sendMessage_agent_fetch_failure_counterexample:
  "trim (lit ''hi'') \<noteq> [] \<and>
   select_agent (agent_outcome ex_env_agent_down) ex_agent (agents (db ex_world)) = None \<and>
   \<not> list_ex is_toast
       (new_events ex_world (sendMessage ex_env_agent_down ex_agent (Some ex_user) (lit ''hi'') ex_world)) \<and>
   messages (sendMessage ex_env_agent_down ex_agent (Some ex_user) (lit ''hi'') ex_world) =
     [\<lparr>role = User, content = lit ''hi''\<rparr>, \<lparr>role = Assistant, content = lit ''Hello''\<rparr>]"
  by (simp add: sendMessage_def sendMessage_try_def sendMessage_create_def createChatSession_def
        sendMessage_session_def saveMessage_def getAgentConfig_def select_agent_def
        new_events_def trim_def isWhiteSpace_def lit_def Let_def
        ex_env_agent_down_def ex_env_def ex_world_def ex_user_def ex_agent_def)

text \<open>
  C4 (amended). If \<open>sendMessage\<close>, past its guards, fails because a session is needed
  and cannot be created, or because the generation call reports an error, rejects, or
  answers without a non-empty \<open>generatedText\<close>, then a notification is among the new
  events, the message list is the previous list followed by the optimistic user message,
  and no assistant message is appended. (A failed fetch of the agent configuration is
  not such a failure: it is logged and the call goes on with a null configuration.)
\<close>

theorem sendMessage_failure_surfaced:
  assumes "trim input \<noteq> []" and "user = Some u"
    and "(needs_session (sessionId w) \<and> creation_fails env) \<or>
         generation_fails env (messages w @ [\<lparr>role = User, content = input\<rparr>])
           (select_agent (agent_outcome env) agentId (agents (db w)))"
  shows "list_ex is_toast (new_events w (sendMessage env agentId user input w)) \<and>
         messages (sendMessage env agentId user input w) =
           messages w @ [\<lparr>role = User, content = input\<rparr>] \<and>
         \<not> list_ex appends_assistant (new_events w (sendMessage env agentId user input w))"
proof -
  let ?um = "\<lparr>role = User, content = input\<rparr>"
  let ?w1 = "setIsLoading True (appendMessage ?um w)"
  let ?r = "sendMessage_try env agentId (Some u) ?um (messages w) (sessionId w) ?w1"
  from assms(3) have f: "(needs_session (sessionId w) \<and> creation_fails env) \<or>
      generation_fails env (messages w @ [?um]) (select_agent (agent_outcome env) agentId (agents (db ?w1)))"
    by simp
  obtain e where e: "fst ?r = Inl e"
    using try_fail(1)[OF f] by blast
  have m: "messages (snd ?r) = messages w @ [?um]"
    using try_fail(2)[OF f] by simp
  obtain evs where evs: "list_all (try_event False) evs"
    "trace (sendMessage env agentId (Some u) input w) =
       trace w @ [Set (AppendMessage ?um), Set (SetIsLoading True)] @ evs @
        [ConsoleError (lit ''Error sending message:''),
         Toast (lit ''Error'') (if e = [] then lit ''Failed to get response'' else e)] @
        [Set (SetIsLoading False)]"
    using sendMessage_trace[OF assms(1), of env agentId u w] e by auto
  have n: "new_events w (sendMessage env agentId (Some u) input w) =
       [Set (AppendMessage ?um), Set (SetIsLoading True)] @ evs @
        [ConsoleError (lit ''Error sending message:''),
         Toast (lit ''Error'') (if e = [] then lit ''Failed to get response'' else e)] @
        [Set (SetIsLoading False)]"
    by (rule new_events_eq) (rule evs(2))
  have "messages (sendMessage env agentId (Some u) input w) = messages w @ [?um]"
    using e m by (simp add: sendMessage_unfold[OF assms(1)] Let_def)
  moreover have "list_ex is_toast (new_events w (sendMessage env agentId (Some u) input w))"
    unfolding n by simp
  moreover have "\<not> list_ex appends_assistant (new_events w (sendMessage env agentId (Some u) input w))"
    unfolding n using try_event_no_assistant[OF evs(1)] by simp
  ultimately show ?thesis using assms(2) by simp
qed

theorem sendMessage_failure_surfaced_witness:
  "trim (lit ''hi'') \<noteq> [] \<and>
   generation_fails ex_env_gen_error (messages ex_world @ [\<lparr>role = User, content = lit ''hi''\<rparr>])
     (select_agent (agent_outcome ex_env_gen_error) ex_agent (agents (db ex_world))) \<and>
   list_ex is_toast
     (new_events ex_world (sendMessage ex_env_gen_error ex_agent (Some ex_user) (lit ''hi'') ex_world)) \<and>
   messages (sendMessage ex_env_gen_error ex_agent (Some ex_user) (lit ''hi'') ex_world) =
     messages ex_world @ [\<lparr>role = User, content = lit ''hi''\<rparr>] \<and>
   \<not> list_ex appends_assistant
       (new_events ex_world (sendMessage ex_env_gen_error ex_agent (Some ex_user) (lit ''hi'') ex_world))"
proof -
  have h1: "trim (lit ''hi'') \<noteq> []"
    by (simp add: trim_def lit_def isWhiteSpace_def)
  have h3: "generation_fails ex_env_gen_error
              (messages ex_world @ [\<lparr>role = User, content = lit ''hi''\<rparr>])
              (select_agent (agent_outcome ex_env_gen_error) ex_agent (agents (db ex_world)))"
    by (simp add: generation_fails_def ex_env_gen_error_def ex_env_def)
  show ?thesis
    using h1 h3 sendMessage_failure_surfaced[OF h1 refl disjI2[OF h3], of ex_user] by blast
qed

text \<open>
  C5. Alice sends a message and the database answers the write of the user message with
  an error in its result. \<open>saveMessage\<close> never looks at the result of the insert
  (line 20), so the failed write is neither logged nor shown: among the new events there
  is no console error and no notification, the user message is not stored, and the call
  goes on to store the assistant's reply alone. The other calls of the hook test the
  \<open>error\<close> field of their results (lines 57, 94, 115, 147, 197).
\<close>

theorem saveMessage_returned_error_discarded:
  "save_user_outcome ex_env_save_rejected =
     ReturnsError (lit ''new row violates row-level security policy'') \<and>
   \<not> list_ex is_console_error
       (new_events ex_world
          (sendMessage ex_env_save_rejected ex_agent (Some ex_user) (lit ''hi'') ex_world)) \<and>
   \<not> list_ex is_toast
       (new_events ex_world
          (sendMessage ex_env_save_rejected ex_agent (Some ex_user) (lit ''hi'') ex_world)) \<and>
   messages (sendMessage ex_env_save_rejected ex_agent (Some ex_user) (lit ''hi'') ex_world) =
     [\<lparr>role = User, content = lit ''hi''\<rparr>, \<lparr>role = Assistant, content = lit ''Hello''\<rparr>] \<and>
   chat_messages (db (sendMessage ex_env_save_rejected ex_agent (Some ex_user) (lit ''hi'') ex_world)) =
     chat_messages (db ex_world) @
       [\<lparr>m_session_id = lit ''s-new'', m_role = Assistant, m_content = lit ''Hello'',
         m_created_at = 31\<rparr>]"
  by (simp add: sendMessage_def sendMessage_try_def sendMessage_create_def createChatSession_def
        sendMessage_session_def saveMessage_def getAgentConfig_def select_agent_def
        new_events_def trim_def isWhiteSpace_def lit_def Let_def
        ex_env_save_rejected_def ex_env_def ex_world_def ex_db_def ex_user_def ex_agent_def)

text \<open>
  C6. From every state, \<open>resetChat\<close> yields an empty message list and a null session
  id; the persisted tables are untouched and the only new events are the two setters, so
  no request, and in particular no deletion, is issued.
\<close>

theorem resetChat_clears:
  "messages (resetChat w) = [] \<and> sessionId (resetChat w) = None \<and>
   isLoading (resetChat w) = isLoading w \<and> db (resetChat w) = db w \<and>
   new_events w (resetChat w) = [Set (ReplaceMessages []), Set (SetSessionId None)] \<and>
   \<not> list_ex is_net (new_events w (resetChat w))"
  by (simp add: resetChat_def new_events_def)

text \<open>
  C7 (as stated, refuted). The URL \<open>?session=\<close> carries the empty string as the value of
  the parameter. It does not match the pattern, yet the effect does nothing at all: no
  notification, and the parameter stays in the URL.
\<close>

theorem empty_session_param_counterexample:
  "params_get [(lit ''session'', [])] (lit ''session'') = Some [] \<and>
   \<not> uuidRegex_test [] \<and>
   session_effect (lit ''/chat/agent-1'') [(lit ''session'', [])] = []"
  by (simp add: params_get_def uuidRegex_test_def session_effect_def eval_nat_numeral)

text \<open>
  C7 (amended). For every value of the \<open>session\<close> parameter that does not match the
  pattern, \<open>loadSession\<close> is not invoked, with that value or any other. If the value is
  not empty, the effect logs the error, shows the notification and replaces the URL by
  one whose parameters no longer contain \<open>session\<close>. If it is empty, the effect treats
  the parameter as absent and does nothing.
\<close>

theorem invalid_session_param:
  assumes "params_get searchParams (lit ''session'') = Some p"
    and "\<not> uuidRegex_test p"
  shows "LoadSession q \<notin> set (session_effect pathname searchParams) \<and>
         (p \<noteq> [] \<longrightarrow>
            session_effect pathname searchParams =
              [PageConsoleError (lit ''Invalid session ID format:''),
               PageToast (lit ''Invalid Session'')
                 (lit ''The chat session ID is not in the correct format. Starting a new chat instead.''),
               ReplaceState pathname (params_delete searchParams (lit ''session''))] \<and>
            params_get (params_delete searchParams (lit ''session'')) (lit ''session'') = None) \<and>
         (p = [] \<longrightarrow> session_effect pathname searchParams = [])"
proof -
  have "map_of (filter (\<lambda>(k, v). k \<noteq> n) ps) n = None" for n :: jsstring and ps :: search_params
    by (induction ps) auto
  then show ?thesis
    using assms by (simp add: session_effect_def params_get_def params_delete_def)
qed

theorem invalid_session_param_witness:
  "params_get [(lit ''tab'', lit ''1''), (lit ''session'', lit ''12345'')] (lit ''session'') =
     Some (lit ''12345'') \<and>
   \<not> uuidRegex_test (lit ''12345'') \<and>
   LoadSession (lit ''12345'') \<notin>
     set (session_effect (lit ''/chat/agent-1'')
            [(lit ''tab'', lit ''1''), (lit ''session'', lit ''12345'')]) \<and>
   session_effect (lit ''/chat/agent-1'') [(lit ''tab'', lit ''1''), (lit ''session'', lit ''12345'')] =
     [PageConsoleError (lit ''Invalid session ID format:''),
      PageToast (lit ''Invalid Session'')
        (lit ''The chat session ID is not in the correct format. Starting a new chat instead.''),
      ReplaceState (lit ''/chat/agent-1'')
        (params_delete [(lit ''tab'', lit ''1''), (lit ''session'', lit ''12345'')] (lit ''session''))] \<and>
   params_delete [(lit ''tab'', lit ''1''), (lit ''session'', lit ''12345'')] (lit ''session'') =
     [(lit ''tab'', lit ''1'')]"
proof -
  have h1: "params_get [(lit ''tab'', lit ''1''), (lit ''session'', lit ''12345'')] (lit ''session'') =
     Some (lit ''12345'')"
    by (simp add: params_get_def lit_def)
  have h2: "\<not> uuidRegex_test (lit ''12345'')"
    by (simp add: uuidRegex_test_def lit_def isHexDigit_def eval_nat_numeral)
  have h3: "lit ''12345'' \<noteq> []"
    by (simp add: lit_def)
  have h4: "params_delete [(lit ''tab'', lit ''1''), (lit ''session'', lit ''12345'')] (lit ''session'') =
     [(lit ''tab'', lit ''1'')]"
    by (simp add: params_delete_def lit_def)
  show ?thesis
    using h1 h2 h3 h4
      invalid_session_param[OF h1 h2, of "lit ''12345''" "lit ''/chat/agent-1''"]
    by blast
qed

text \<open>
  C8. For every session that is stored exactly once and owned by the current user, when
  both queries succeed, \<open>loadSession\<close> replaces the message list by the messages of the
  rows selected for that session: these rows are exactly the rows of the table that
  carry the session id, each as often as it is stored, in ascending order of
  \<open>created_at\<close>.
\<close>

theorem loadSession_replaces_messages:
  assumes "sid \<noteq> []" and "user = Some u"
    and "session_outcome env = Succeeds" and "messages_outcome env = Succeeds"
    and "filter (\<lambda>r. s_id r = sid) (chat_sessions (db w)) = [r]"
    and "s_user_id r = uid u"
  shows "messages (loadSession env user sid w) =
           map (\<lambda>msg. \<lparr>role = m_role msg, content = m_content msg\<rparr>) (session_messages sid (db w)) \<and>
         sorted (map m_created_at (session_messages sid (db w))) \<and>
         mset (session_messages sid (db w)) =
           filter_mset (\<lambda>r. m_session_id r = sid) (mset (chat_messages (db w)))"
proof -
  have "messages (loadSession env user sid w) =
          map (\<lambda>msg. \<lparr>role = m_role msg, content = m_content msg\<rparr>) (session_messages sid (db w))"
    using assms
    by (simp add: loadSession_def loadSession_try_def select_session_def select_messages_def Let_def)
  moreover have "sorted (map m_created_at (session_messages sid (db w)))"
    by (simp add: session_messages_def)
  moreover have "mset (session_messages sid (db w)) =
           filter_mset (\<lambda>r. m_session_id r = sid) (mset (chat_messages (db w)))"
    by (simp add: session_messages_def)
  ultimately show ?thesis by simp
qed

theorem loadSession_replaces_messages_witness:
  "filter (\<lambda>r. s_id r = lit ''s-alice'') (chat_sessions (db ex_world)) =
     [\<lparr>s_id = lit ''s-alice'', s_agent_id = lit ''agent-1'', s_user_id = lit ''alice'',
       s_title = lit ''New Chat'', s_created_at = lit ''t0'', s_updated_at = lit ''t0''\<rparr>] \<and>
   messages (loadSession ex_load_env (Some ex_user) (lit ''s-alice'') ex_world) =
     [\<lparr>role = User, content = lit ''ping''\<rparr>, \<lparr>role = Assistant, content = lit ''pong''\<rparr>]"
proof -
  have h1: "lit ''s-alice'' \<noteq> []"
    by (simp add: lit_def)
  have h3: "session_outcome ex_load_env = Succeeds" "messages_outcome ex_load_env = Succeeds"
    by (simp_all add: ex_load_env_def)
  have h5: "filter (\<lambda>r. s_id r = lit ''s-alice'') (chat_sessions (db ex_world)) =
     [\<lparr>s_id = lit ''s-alice'', s_agent_id = lit ''agent-1'', s_user_id = lit ''alice'',
       s_title = lit ''New Chat'', s_created_at = lit ''t0'', s_updated_at = lit ''t0''\<rparr>]"
    by (simp add: ex_world_def ex_db_def lit_def)
  have h6: "s_user_id \<lparr>s_id = lit ''s-alice'', s_agent_id = lit ''agent-1'', s_user_id = lit ''alice'',
       s_title = lit ''New Chat'', s_created_at = lit ''t0'', s_updated_at = lit ''t0''\<rparr> = uid ex_user"
    by (simp add: ex_user_def)
  have h7: "map (\<lambda>msg. \<lparr>role = m_role msg, content = m_content msg\<rparr>)
              (session_messages (lit ''s-alice'') (db ex_world)) =
            [\<lparr>role = User, content = lit ''ping''\<rparr>, \<lparr>role = Assistant, content = lit ''pong''\<rparr>]"
    by (simp add: session_messages_def ex_world_def ex_db_def lit_def)
  show ?thesis
    using h5 h7 loadSession_replaces_messages[OF h1 refl h3 h5 h6] by simp
qed

text \<open>
  C9. The loading flag brackets the network operations of \<open>loadSession\<close> and of
  \<open>sendMessage\<close> past its guards: among the events the call adds to the trace, every
  request is issued after the flag has been set and before it is cleared, and when the
  call completes the flag is false, whatever the outcomes of the requests.
\<close>

theorem isLoading_brackets:
  "trace (loadSession lenv user sid w) = trace w @ new_events w (loadSession lenv user sid w) \<and>
   bracketed False (new_events w (loadSession lenv user sid w)) \<and>
   \<not> isLoading (loadSession lenv user sid w) \<and>
   (trim input \<noteq> [] \<and> sender = Some u \<longrightarrow>
      trace (sendMessage env agentId sender input w) =
        trace w @ new_events w (sendMessage env agentId sender input w) \<and>
      bracketed False (new_events w (sendMessage env agentId sender input w)) \<and>
      \<not> isLoading (sendMessage env agentId sender input w))"
proof -
  obtain evs where evs: "trace (snd (loadSession_try lenv user sid w)) = trace w @ evs"
      "\<forall>rest. bracketed False (evs @ rest) = bracketed (evs \<noteq> []) rest"
    using loadSession_try_bracketed by blast
  obtain tl where tl: "trace (loadSession lenv user sid w) = trace w @ evs @ tl"
      "list_all (\<lambda>e. \<not> is_net e) tl"
    using evs(1) by (cases "fst (loadSession_try lenv user sid w)") (simp_all add: loadSession_unfold)
  have quiet: "bracketed l tl" for l
    using tl(2)
  proof (induction tl arbitrary: l)
    case Nil
    then show ?case by simp
  next
    case (Cons e es)
    then show ?case
    proof (cases e)
      case (Set x)
      with Cons show ?thesis by (cases x) simp_all
    qed simp_all
  qed
  have l1: "new_events w (loadSession lenv user sid w) = evs @ tl"
    using tl(1) by (rule new_events_eq)
  have l2: "bracketed False (evs @ tl)"
    using evs(2) quiet by simp
  have l3: "\<not> isLoading (loadSession lenv user sid w)"
    by (simp add: loadSession_unfold)
  have s: "trace (sendMessage env agentId sender input w) =
        trace w @ new_events w (sendMessage env agentId sender input w) \<and>
      bracketed False (new_events w (sendMessage env agentId sender input w)) \<and>
      \<not> isLoading (sendMessage env agentId sender input w)"
    if ne: "trim input \<noteq> []" and au: "sender = Some u"
  proof -
    let ?um = "\<lparr>role = User, content = input\<rparr>"
    let ?r = "sendMessage_try env agentId (Some u) ?um (messages w) (sessionId w)
                (setIsLoading True (appendMessage ?um w))"
    obtain tevs where tevs: "list_all (try_event (\<not> isl (fst ?r))) tevs"
      "trace (sendMessage env agentId (Some u) input w) =
         trace w @ [Set (AppendMessage ?um), Set (SetIsLoading True)] @ tevs @
         (case fst ?r of
            Inl e \<Rightarrow> [ConsoleError (lit ''Error sending message:''),
                       Toast (lit ''Error'') (if e = [] then lit ''Failed to get response'' else e)]
          | Inr _ \<Rightarrow> []) @ [Set (SetIsLoading False)]"
      using sendMessage_trace[OF ne, of env agentId u w] by blast
    have n: "new_events w (sendMessage env agentId (Some u) input w) =
         [Set (AppendMessage ?um), Set (SetIsLoading True)] @ tevs @
         (case fst ?r of
            Inl e \<Rightarrow> [ConsoleError (lit ''Error sending message:''),
                       Toast (lit ''Error'') (if e = [] then lit ''Failed to get response'' else e)]
          | Inr _ \<Rightarrow> []) @ [Set (SetIsLoading False)]"
      by (rule new_events_eq) (rule tevs(2))
    have "bracketed False (new_events w (sendMessage env agentId (Some u) input w))"
      unfolding n using bracketed_try[OF tevs(1)] by (simp split: sum.splits)
    moreover have "\<not> isLoading (sendMessage env agentId (Some u) input w)"
      by (simp add: sendMessage_unfold[OF ne])
    moreover have "trace (sendMessage env agentId (Some u) input w) =
        trace w @ new_events w (sendMessage env agentId (Some u) input w)"
      unfolding n by (rule tevs(2))
    ultimately show ?thesis using au by simp
  qed
  show ?thesis
    using tl(1) l1 l2 l3 s by simp
qed

theorem isLoading_brackets_witness:
  "trim (lit ''hi'') \<noteq> [] \<and>
   list_ex is_net (new_events ex_world (sendMessage ex_env ex_agent (Some ex_user) (lit ''hi'') ex_world)) \<and>
   bracketed False
     (new_events ex_world (sendMessage ex_env ex_agent (Some ex_user) (lit ''hi'') ex_world)) \<and>
   \<not> isLoading (sendMessage ex_env ex_agent (Some ex_user) (lit ''hi'') ex_world)"
proof -
  have h1: "trim (lit ''hi'') \<noteq> []"
    by (simp add: trim_def lit_def isWhiteSpace_def)
  have h2: "list_ex is_net
      (new_events ex_world (sendMessage ex_env ex_agent (Some ex_user) (lit ''hi'') ex_world))"
    by (simp add: sendMessage_def sendMessage_try_def sendMessage_create_def createChatSession_def
        sendMessage_session_def saveMessage_def getAgentConfig_def select_agent_def
        new_events_def trim_def isWhiteSpace_def lit_def Let_def
        ex_env_def ex_world_def ex_db_def ex_user_def ex_agent_def)
  show ?thesis
    using h1 h2
      isLoading_brackets[of ex_load_env None "[]" ex_world "lit ''hi''" "Some ex_user" ex_user
        ex_env ex_agent]
    by blast
qed

text \<open>
  C10. When the message list of the hook is empty, the page renders exactly one message,
  the welcome message of the assistant: the generic greeting while no agent is loaded,
  and otherwise a greeting with the agent's name followed by its description, or by the
  generic question when the agent has no description. A list that is not empty is
  rendered as it is.
\<close>

theorem displayMessages_welcome:
  "displayMessages agent [] = [welcomeMessage agent] \<and>
   role (welcomeMessage agent) = Assistant \<and>
   displayMessages agent (m # ms) = m # ms \<and>
   content (welcomeMessage None) =
     lit ''Hello! I'm your AI assistant. How can I help you today?'' \<and>
   content (welcomeMessage (Some \<lparr>a_id = i, a_name = n, a_description = Some (c # d)\<rparr>)) =
     lit ''Hello! I'm '' @ n @ lit ''. '' @ c # d \<and>
   content (welcomeMessage (Some \<lparr>a_id = i, a_name = n, a_description = None\<rparr>)) =
     lit ''Hello! I'm '' @ n @ lit ''. How can I help you today?'' \<and>
   content (welcomeMessage (Some \<lparr>a_id = i, a_name = n, a_description = Some []\<rparr>)) =
     lit ''Hello! I'm '' @ n @ lit ''. How can I help you today?''"
  by (simp add: displayMessages_def welcomeMessage_def lit_def)

end
